theory Spec2Isabelle
  imports Complex_Main
begin

section \<open>Condition matching and risk-gated execution\<close>

text \<open>
  A shallow embedding of \<^verbatim>\<open>condition_parser.Condition\<close>,
  \<^verbatim>\<open>conditions_matcher.ConditionsMatcher\<close> and
  \<^verbatim>\<open>trade_executor.TradeExecutor\<close>.

  Python floats are idealised as real numbers: comparisons of finite floats are exactly the
  comparisons of the reals they denote; products and quotients are taken without rounding, and
  there is no NaN or infinity. Python's \<^verbatim>\<open>None\<close> in an optional field is
  \<open>None\<close> of an option type. Mutation of the matcher and of the executor is explicit
  state passing. The calls made to the registered callbacks are returned as a list of events.
\<close>

subsection \<open>Data model\<close>

text \<open>\<^verbatim>\<open>condition_parser.Condition\<close>; the field \<^verbatim>\<open>value\<close> is the threshold.\<close>

record Condition =
  task_id :: string
  description :: string
  indicator :: string
  operator :: string
  value' :: real
  completed :: bool
  current_value :: "real option"

text \<open>\<^verbatim>\<open>conditions_matcher.MarketData\<close>.\<close>

record MarketData =
  symbol :: string
  price :: real
  volume :: real
  indicators :: "string \<rightharpoonup> real"
  timestamp :: real

text \<open>
  A callback is an opaque handle. One event is one run of
  \<^verbatim>\<open>_notify_update\<close> or of \<^verbatim>\<open>_execute_trade\<close>: the callbacks it
  calls, in order, and the arguments every one of them receives. Both methods catch whatever a
  callback raises, so a callback cannot abort the pass.
\<close>

type_synonym callback = nat

datatype event =
  StateChanged "callback list" "Condition list"
| Trigger "callback list" string "Condition list"

text \<open>The fields of \<^verbatim>\<open>ConditionsMatcher\<close> that the evaluation reads or writes.\<close>

record ConditionsMatcher =
  conditions :: "Condition list"
  market_data :: "string \<rightharpoonup> MarketData"
  update_callbacks :: "callback list"
  trade_executed_callbacks :: "callback list"
  running :: bool

subsection \<open>The matcher\<close>

definition notify_update :: "ConditionsMatcher \<Rightarrow> event" where
  "notify_update m = StateChanged (update_callbacks m) (conditions m)"

definition execute_trade_callbacks :: "ConditionsMatcher \<Rightarrow> string \<Rightarrow> event" where
  "execute_trade_callbacks m symb = Trigger (trade_executed_callbacks m) symb (conditions m)"

definition add_conditions ::
  "ConditionsMatcher \<Rightarrow> Condition list \<Rightarrow> ConditionsMatcher \<times> event list" where
  "add_conditions m cs =
     (let m' = m\<lparr>conditions := conditions m @ cs\<rparr> in (m', [notify_update m']))"

definition reset_conditions :: "ConditionsMatcher \<Rightarrow> ConditionsMatcher \<times> event list" where
  "reset_conditions m =
     (let m' = m\<lparr>conditions :=
                  map (\<lambda>c. c\<lparr>completed := False, current_value := None\<rparr>) (conditions m)\<rparr>
      in (m', [notify_update m']))"

definition condition_applies_to_symbol :: "Condition \<Rightarrow> string \<Rightarrow> bool" where
  "condition_applies_to_symbol c symb = True"

text \<open>
  The first half of \<^verbatim>\<open>_evaluate_condition\<close>: which number the indicator names.
  \<open>None\<close> is the branch \<^verbatim>\<open>return False  # Indicator not available\<close>.
\<close>

definition read_indicator :: "Condition \<Rightarrow> MarketData \<Rightarrow> real option" where
  "read_indicator c d =
     (if indicator c = ''Price'' then Some (price d)
      else if indicator c = ''Volume'' then Some (volume d)
      else if indicators d (indicator c) \<noteq> None then indicators d (indicator c)
      else None)"

text \<open>The comparison chain of \<^verbatim>\<open>_evaluate_condition\<close>.\<close>

definition apply_operator :: "string \<Rightarrow> real \<Rightarrow> real \<Rightarrow> bool" where
  "apply_operator op v t =
     (if op = ''<'' then v < t
      else if op = ''>'' then v > t
      else if op = ''<='' then v \<le> t
      else if op = ''>='' then v \<ge> t
      else False)"

text \<open>
  \<^verbatim>\<open>_evaluate_condition\<close> returns a truth value and, when the indicator is
  available, has stored the number read in \<^verbatim>\<open>current_value\<close>. A comparison of
  two floats never raises, so the handler around the comparison has no branch here.
\<close>

definition evaluate_condition :: "Condition \<Rightarrow> MarketData \<Rightarrow> bool \<times> Condition" where
  "evaluate_condition c d =
     (case read_indicator c d of
        None \<Rightarrow> (False, c)
      | Some v \<Rightarrow> (apply_operator (operator c) v (value' c), c\<lparr>current_value := Some v\<rparr>))"

text \<open>
  The loop of \<^verbatim>\<open>_evaluate_conditions_for_symbol\<close>, with its two flags
  \<^verbatim>\<open>conditions_updated\<close> and \<^verbatim>\<open>all_completed\<close> as accumulators.
\<close>

fun evaluate_loop ::
  "Condition list \<Rightarrow> string \<Rightarrow> MarketData \<Rightarrow> bool \<Rightarrow> bool \<Rightarrow> Condition list \<times> bool \<times> bool" where
  "evaluate_loop [] symb d conditions_updated all_completed =
     ([], conditions_updated, all_completed)"
| "evaluate_loop (c # cs) symb d conditions_updated all_completed =
     (if condition_applies_to_symbol c symb then
        (let was_completed = completed c;
             (r, c1) = evaluate_condition c d;
             c2 = c1\<lparr>completed := r\<rparr>;
             conditions_updated' = (if completed c2 \<noteq> was_completed then True else conditions_updated);
             all_completed' = (if \<not> completed c2 then False else all_completed);
             (cs', u, a) = evaluate_loop cs symb d conditions_updated' all_completed'
         in (c2 # cs', u, a))
      else
        (let (cs', u, a) = evaluate_loop cs symb d conditions_updated all_completed
         in (c # cs', u, a)))"

definition evaluate_conditions_for_symbol ::
  "ConditionsMatcher \<Rightarrow> string \<Rightarrow> MarketData \<Rightarrow> ConditionsMatcher \<times> event list" where
  "evaluate_conditions_for_symbol m symb d =
     (let (cs', conditions_updated, all_completed) = evaluate_loop (conditions m) symb d False True;
          m' = m\<lparr>conditions := cs'\<rparr>
      in (m',
          (if conditions_updated then [notify_update m'] else []) @
          (if all_completed \<and> conditions m' \<noteq> [] then [execute_trade_callbacks m' symb] else [])))"

text \<open>
  The passes the matching loop makes for a sequence of dequeued updates, in order, and the
  events of all of them.
\<close>

fun run_passes ::
  "ConditionsMatcher \<Rightarrow> (string \<times> MarketData) list \<Rightarrow> ConditionsMatcher \<times> event list" where
  "run_passes m [] = (m, [])"
| "run_passes m ((symb, d) # rest) =
     (let (m1, ev) = evaluate_conditions_for_symbol m symb d;
          (m2, evs) = run_passes m1 rest
      in (m2, ev @ evs))"

subsection \<open>The executor\<close>

text \<open>\<^verbatim>\<open>trade_executor.TradeOrder\<close>, \<^verbatim>\<open>TradeExecution\<close> and \<^verbatim>\<open>RiskParameters\<close>.\<close>

record TradeOrder =
  symbol :: string
  order_type :: string
  quantity :: int
  price :: "real option"
  stop_price :: "real option"
  time_in_force :: string

record TradeExecution =
  order :: TradeOrder
  executed_price :: real
  executed_quantity :: int
  timestamp :: real
  execution_id :: string
  commission :: real

record RiskParameters =
  max_position_size :: real
  max_daily_loss :: real
  stop_loss_percentage :: real
  take_profit_percentage :: real
  max_risk_per_trade :: real

record TradeExecutor =
  portfolio_value :: real
  risk_params :: RiskParameters
  executed_trades :: "TradeExecution list"
  daily_pnl :: real
  last_reset_date :: real
  using_real_broker :: bool

text \<open>
  What \<^verbatim>\<open>broker_manager.execute_trade(order)\<close> does is outside the executor: it
  raises, or it returns an execution or \<^verbatim>\<open>None\<close>. The broker is a parameter.
\<close>

datatype broker_result = BrokerRaises | BrokerReturns "TradeExecution option"

type_synonym broker = "TradeOrder \<Rightarrow> broker_result"

text \<open>
  What a simulated fill reads from outside: the number drawn by
  \<^verbatim>\<open>random.uniform(-0.0005, 0.0005)\<close> and the two readings of
  \<^verbatim>\<open>time.time()\<close>, the first for the timestamp, the second for the identifier.
\<close>

record SimEnv =
  slippage :: real
  time_stamp :: real
  time_id :: real

datatype error = ZeroDivisionError

text \<open>\<^verbatim>\<open>int(x)\<close> of a float: truncation toward zero.\<close>

definition py_int :: "real \<Rightarrow> int" where
  "py_int x = (if 0 \<le> x then \<lfloor>x\<rfloor> else \<lceil>x\<rceil>)"

text \<open>\<^verbatim>\<open>str(n)\<close> of an integer: its decimal digits, with a sign when negative.\<close>

definition digit_char :: "nat \<Rightarrow> char" where
  "digit_char n = ''0123456789'' ! (n mod 10)"

function str_nat :: "nat \<Rightarrow> string" where
  "str_nat n = (if n < 10 then [digit_char n] else str_nat (n div 10) @ [digit_char n])"
  by pat_completeness auto
termination
  by (relation "measure (\<lambda>n. n)") auto

declare str_nat.simps [simp del]

definition str_int :: "int \<Rightarrow> string" where
  "str_int i = (if i < 0 then CHR ''-'' # str_nat (nat (- i)) else str_nat (nat i))"

definition check_risk_limits :: "TradeExecutor \<Rightarrow> string \<Rightarrow> MarketData \<Rightarrow> bool" where
  "check_risk_limits ex symb d =
     (if daily_pnl ex < - max_daily_loss (risk_params ex) then False
      else
        (let current_price = MarketData.price d;
             order_value = current_price * 100
         in if order_value > max_position_size (risk_params ex) then False else True))"

definition calculate_position_size :: "TradeExecutor \<Rightarrow> MarketData \<Rightarrow> error + int" where
  "calculate_position_size ex d =
     (let current_price = MarketData.price d;
          max_risk_amount = portfolio_value ex * max_risk_per_trade (risk_params ex);
          stop_loss_amount = current_price * stop_loss_percentage (risk_params ex)
      in if stop_loss_amount = 0 then Inl ZeroDivisionError
         else
           (let position_size = max_risk_amount / stop_loss_amount;
                shares = py_int position_size
            in Inr shares))"

definition create_order :: "string \<Rightarrow> MarketData \<Rightarrow> int \<Rightarrow> TradeOrder" where
  "create_order symb d qty =
     \<lparr>symbol = symb, order_type = ''market'', quantity = qty,
      price = Some (MarketData.price d), stop_price = None, time_in_force = ''IOC''\<rparr>"

definition simulate_execution :: "SimEnv \<Rightarrow> TradeOrder \<Rightarrow> MarketData \<Rightarrow> TradeExecution option" where
  "simulate_execution env ord d =
     (let executed_price' = MarketData.price d * (1 + slippage env);
          trade_value = executed_price' * real_of_int (quantity ord);
          commission' = trade_value * 0.001
      in Some \<lparr>order = ord, executed_price = executed_price',
               executed_quantity = quantity ord, timestamp = time_stamp env,
               execution_id = ''EXEC_'' @ str_int (py_int (time_id env * 1000)),
               commission = commission'\<rparr>)"

definition execute_real_broker ::
  "broker \<Rightarrow> SimEnv \<Rightarrow> TradeOrder \<Rightarrow> MarketData \<Rightarrow> TradeExecution option" where
  "execute_real_broker br env ord d =
     (case br ord of
        BrokerReturns execution \<Rightarrow> execution
      | BrokerRaises \<Rightarrow> simulate_execution env ord d)"

text \<open>
  \<^verbatim>\<open>_set_broker_risk_orders\<close> changes nothing in the executor; what is kept of it is
  the orders it hands to the broker. A broker that raises on the stop order ends the method
  before the limit order is submitted.
\<close>

definition set_broker_risk_orders ::
  "TradeExecutor \<Rightarrow> broker \<Rightarrow> TradeExecution \<Rightarrow> MarketData \<Rightarrow> TradeOrder list" where
  "set_broker_risk_orders ex br execution d =
     (let stop_loss_price = executed_price execution * (1 - stop_loss_percentage (risk_params ex));
          take_profit_price = executed_price execution * (1 + take_profit_percentage (risk_params ex));
          stop_order = \<lparr>symbol = symbol (order execution), order_type = ''stop'',
                        quantity = executed_quantity execution, price = None,
                        stop_price = Some stop_loss_price, time_in_force = ''IOC''\<rparr>;
          limit_order = \<lparr>symbol = symbol (order execution), order_type = ''limit'',
                         quantity = executed_quantity execution, price = Some take_profit_price,
                         stop_price = None, time_in_force = ''IOC''\<rparr>
      in case br stop_order of
           BrokerRaises \<Rightarrow> [stop_order]
         | BrokerReturns r \<Rightarrow> [stop_order, limit_order])"

text \<open>
  \<^verbatim>\<open>execute_trade\<close> returns the execution (or \<^verbatim>\<open>None\<close>), the executor as it
  leaves it, and the orders handed to the broker, in order. \<open>Inl\<close> is an exception that
  leaves the method. \<^verbatim>\<open>_log_execution\<close> only prints.
\<close>

definition execute_trade ::
  "TradeExecutor \<Rightarrow> broker \<Rightarrow> SimEnv \<Rightarrow> string \<Rightarrow> MarketData \<Rightarrow> Condition list
     \<Rightarrow> error + (TradeExecution option \<times> TradeExecutor \<times> TradeOrder list)" where
  "execute_trade ex br env symb d conds =
     (if \<not> check_risk_limits ex symb d then Inr (None, ex, [])
      else
        case calculate_position_size ex d of
          Inl e \<Rightarrow> Inl e
        | Inr position_size \<Rightarrow>
            if position_size \<le> 0 then Inr (None, ex, [])
            else
              (let ord = create_order symb d position_size;
                   execution =
                     (if using_real_broker ex then execute_real_broker br env ord d
                      else simulate_execution env ord d);
                   sent = (if using_real_broker ex then [ord] else [])
               in case execution of
                    None \<Rightarrow> Inr (None, ex, sent)
                  | Some e \<Rightarrow>
                      Inr (Some e, ex\<lparr>executed_trades := executed_trades ex @ [e]\<rparr>,
                           sent @ (if using_real_broker ex then set_broker_risk_orders ex br e d
                                   else []))))"

subsection \<open>Vocabulary of the statements\<close>

text \<open>What one iteration of the loop leaves in the list for a condition.\<close>

definition evaluated :: "Condition \<Rightarrow> MarketData \<Rightarrow> Condition" where
  "evaluated c d = (let (r, c1) = evaluate_condition c d in c1\<lparr>completed := r\<rparr>)"

text \<open>The two kinds of event.\<close>

fun is_trigger :: "event \<Rightarrow> bool" where
  "is_trigger (Trigger cbs s cs) = True"
| "is_trigger (StateChanged cbs cs) = False"

fun is_state_changed :: "event \<Rightarrow> bool" where
  "is_state_changed (StateChanged cbs cs) = True"
| "is_state_changed (Trigger cbs s cs) = False"

text \<open>The test \<^verbatim>\<open>all_completed and self.conditions\<close>, read off a matcher.\<close>

definition all_satisfied :: "ConditionsMatcher \<Rightarrow> bool" where
  "all_satisfied m = (conditions m \<noteq> [] \<and> list_all completed (conditions m))"

text \<open>Every pass of the run leaves the set non-empty and fully satisfied.\<close>

fun stays_satisfied :: "ConditionsMatcher \<Rightarrow> (string \<times> MarketData) list \<Rightarrow> bool" where
  "stays_satisfied m [] = True"
| "stays_satisfied m ((symb, d) # rest) =
     (let m1 = fst (evaluate_conditions_for_symbol m symb d)
      in all_satisfied m1 \<and> stays_satisfied m1 rest)"

text \<open>The fields of a condition that describe the rule.\<close>

definition frame :: "Condition \<Rightarrow> string \<times> string \<times> string \<times> string \<times> real" where
  "frame c = (task_id c, description c, indicator c, operator c, value' c)"

text \<open>Concrete conditions, matchers and snapshots for the examples.\<close>

definition cond_ex :: "string \<Rightarrow> string \<Rightarrow> real \<Rightarrow> bool \<Rightarrow> real option \<Rightarrow> Condition" where
  "cond_ex ind op t done cur =
     \<lparr>task_id = ''task_1'', description = ''rule'', indicator = ind, operator = op,
      value' = t, completed = done, current_value = cur\<rparr>"

definition matcher_ex :: "Condition list \<Rightarrow> ConditionsMatcher" where
  "matcher_ex cs = \<lparr>conditions = cs, market_data = Map.empty, update_callbacks = [0],
                    trade_executed_callbacks = [1], running = True\<rparr>"

definition snapshot_ex :: "real \<Rightarrow> real \<Rightarrow> (string \<rightharpoonup> real) \<Rightarrow> MarketData" where
  "snapshot_ex p v inds = \<lparr>MarketData.symbol = ''AAPL'', price = p, volume = v, indicators = inds,
                           timestamp = 0\<rparr>"

text \<open>The default risk parameters, an executor with them, and an environment.\<close>

definition risk_ex :: RiskParameters where
  "risk_ex = \<lparr>max_position_size = 10000, max_daily_loss = 1000, stop_loss_percentage = 0.02,
              take_profit_percentage = 0.05, max_risk_per_trade = 0.01\<rparr>"

definition executor_ex :: "real \<Rightarrow> bool \<Rightarrow> TradeExecutor" where
  "executor_ex pnl real_broker =
     \<lparr>portfolio_value = 100000, risk_params = risk_ex, executed_trades = [], daily_pnl = pnl,
      last_reset_date = 0, using_real_broker = real_broker\<rparr>"

definition env_ex :: SimEnv where
  "env_ex = \<lparr>slippage = 0, time_stamp = 1700000000, time_id = 1700000000\<rparr>"

section \<open>Properties\<close>

subsection \<open>The evaluation pass in closed form\<close>

lemmas ex_defs = cond_ex_def matcher_ex_def snapshot_ex_def
lemmas pass_defs = evaluate_conditions_for_symbol_def condition_applies_to_symbol_def
  evaluate_condition_def read_indicator_def apply_operator_def execute_trade_callbacks_def
  notify_update_def all_satisfied_def

lemma evaluate_loop_eq:
  "evaluate_loop cs s d u a =
     (map (\<lambda>c. evaluated c d) cs,
      u \<or> map completed (map (\<lambda>c. evaluated c d) cs) \<noteq> map completed cs,
      a \<and> list_all completed (map (\<lambda>c. evaluated c d) cs))"
proof (induction cs arbitrary: u a)
  case Nil
  show ?case by simp
next
  case (Cons c cs)
  show ?case
    by (simp add: Cons.IH condition_applies_to_symbol_def evaluated_def Let_def split: prod.splits)
qed

lemma pass_eq:
  "evaluate_conditions_for_symbol m s d =
    (let m' = m\<lparr>conditions := map (\<lambda>c. evaluated c d) (conditions m)\<rparr> in
     (m', (if map completed (conditions m') \<noteq> map completed (conditions m) then [notify_update m'] else []) @
          (if all_satisfied m' then [execute_trade_callbacks m' s] else [])))"
  by (simp add: evaluate_conditions_for_symbol_def evaluate_loop_eq Let_def all_satisfied_def conj_commute)

lemma pass_conditions:
  "conditions (fst (evaluate_conditions_for_symbol m s d)) = map (\<lambda>c. evaluated c d) (conditions m)"
  by (simp add: pass_eq Let_def)

lemma pass_triggers:
  "filter is_trigger (snd (evaluate_conditions_for_symbol m s d)) =
     (if all_satisfied (fst (evaluate_conditions_for_symbol m s d))
      then [Trigger (trade_executed_callbacks m) s (conditions (fst (evaluate_conditions_for_symbol m s d)))]
      else [])"
  by (simp add: pass_eq Let_def notify_update_def execute_trade_callbacks_def)

lemma pass_state_changes:
  "filter is_state_changed (snd (evaluate_conditions_for_symbol m s d)) =
     (if map completed (conditions (fst (evaluate_conditions_for_symbol m s d))) \<noteq> map completed (conditions m)
      then [StateChanged (update_callbacks m) (conditions (fst (evaluate_conditions_for_symbol m s d)))]
      else [])"
  by (simp add: pass_eq Let_def notify_update_def execute_trade_callbacks_def)

lemma run_passes_snd_Cons:
  "snd (run_passes m ((s, d) # rest)) =
     snd (evaluate_conditions_for_symbol m s d) @ snd (run_passes (fst (evaluate_conditions_for_symbol m s d)) rest)"
  by (simp add: Let_def split: prod.splits)

subsection \<open>Firing\<close>

text \<open>
  C1 (as the code has it). The trigger is level-triggered: a pass calls the trade callbacks
  whenever it leaves the set non-empty and fully satisfied. Over a run of passes that all leave
  the set fully satisfied, the trigger notification is emitted once per pass: k+1 times for the
  passes N..N+k, not once.
\<close>

theorem trigger_on_every_satisfied_pass:
  assumes "stays_satisfied m xs"
  shows "length (filter is_trigger (snd (run_passes m xs))) = length xs"
  using assms
proof (induction xs arbitrary: m)
  case Nil
  show ?case by simp
next
  case (Cons x xs)
  obtain s d where x: "x = (s, d)" by (cases x)
  let ?m1 = "fst (evaluate_conditions_for_symbol m s d)"
  from Cons.prems x have sat: "all_satisfied ?m1" and rest: "stays_satisfied ?m1 xs"
    by (simp_all add: Let_def)
  have "length (filter is_trigger (snd (evaluate_conditions_for_symbol m s d))) = 1"
    using sat by (simp add: pass_triggers)
  moreover have "length (filter is_trigger (snd (run_passes ?m1 xs))) = length xs"
    using rest by (rule Cons.IH)
  ultimately show ?case
    unfolding x run_passes_snd_Cons by simp
qed

theorem trigger_on_every_satisfied_pass_witness:
  "stays_satisfied (matcher_ex [cond_ex ''RSI'' ''<'' 30 False None])
     [(''AAPL'', snapshot_ex 120 2500000 [''RSI'' \<mapsto> 25]),
      (''AAPL'', snapshot_ex 121 2500000 [''RSI'' \<mapsto> 24]),
      (''AAPL'', snapshot_ex 122 2500000 [''RSI'' \<mapsto> 23])]
   \<and> length (filter is_trigger (snd (run_passes (matcher_ex [cond_ex ''RSI'' ''<'' 30 False None])
     [(''AAPL'', snapshot_ex 120 2500000 [''RSI'' \<mapsto> 25]),
      (''AAPL'', snapshot_ex 121 2500000 [''RSI'' \<mapsto> 24]),
      (''AAPL'', snapshot_ex 122 2500000 [''RSI'' \<mapsto> 23])]))) = 3"
proof -
  have h: "stays_satisfied (matcher_ex [cond_ex ''RSI'' ''<'' 30 False None])
     [(''AAPL'', snapshot_ex 120 2500000 [''RSI'' \<mapsto> 25]),
      (''AAPL'', snapshot_ex 121 2500000 [''RSI'' \<mapsto> 24]),
      (''AAPL'', snapshot_ex 122 2500000 [''RSI'' \<mapsto> 23])]"
    by (simp add: ex_defs pass_defs)
  show ?thesis
    using h trigger_on_every_satisfied_pass [OF h] by simp
qed

text \<open>
  C1 as stated fails: a set that is not satisfied before, becomes fully satisfied on the first
  pass and stays so on the second, fires on both passes.
\<close>

theorem edge_triggered_counterexample:
  "\<not> all_satisfied (matcher_ex [cond_ex ''RSI'' ''<'' 30 False None])
   \<and> stays_satisfied (matcher_ex [cond_ex ''RSI'' ''<'' 30 False None])
       [(''AAPL'', snapshot_ex 120 2500000 [''RSI'' \<mapsto> 25]),
        (''AAPL'', snapshot_ex 119 2600000 [''RSI'' \<mapsto> 20])]
   \<and> length (filter is_trigger (snd (run_passes (matcher_ex [cond_ex ''RSI'' ''<'' 30 False None])
       [(''AAPL'', snapshot_ex 120 2500000 [''RSI'' \<mapsto> 25]),
        (''AAPL'', snapshot_ex 119 2600000 [''RSI'' \<mapsto> 20])]))) = 2"
  by (simp add: ex_defs pass_defs)

lemma run_passes_conditions_Nil:
  "conditions m = [] \<Longrightarrow>
     conditions (fst (run_passes m xs)) = [] \<and> snd (run_passes m xs) = []"
proof (induction xs arbitrary: m)
  case Nil
  then show ?case by simp
next
  case (Cons x xs)
  obtain s d where x: "x = (s, d)" by (cases x)
  let ?m1 = "fst (evaluate_conditions_for_symbol m s d)"
  have c1: "conditions ?m1 = []" and e1: "snd (evaluate_conditions_for_symbol m s d) = []"
    using Cons.prems by (simp_all add: pass_eq Let_def all_satisfied_def)
  have f: "fst (run_passes m ((s, d) # xs)) = fst (run_passes ?m1 xs)"
    by (simp add: Let_def split: prod.splits)
  from Cons.IH [OF c1] show ?case
    unfolding x f run_passes_snd_Cons by (simp add: e1)
qed

text \<open>
  C2. While the condition list is empty, no pass emits a trigger notification, whatever
  snapshots are evaluated: the passes emit no event at all and leave the list empty.
\<close>

theorem empty_set_never_fires:
  assumes "conditions m = []"
  shows "filter is_trigger (snd (run_passes m xs)) = []"
  using run_passes_conditions_Nil [OF assms, of xs] by simp

theorem empty_set_never_fires_witness:
  "conditions (matcher_ex []) = []
   \<and> filter is_trigger (snd (run_passes (matcher_ex [])
       [(''AAPL'', snapshot_ex 120 2500000 [''RSI'' \<mapsto> 25]),
        (''MSFT'', snapshot_ex 300 10 Map.empty)])) = []"
proof -
  have h: "conditions (matcher_ex []) = []" by (simp add: matcher_ex_def)
  show ?thesis
    by (rule conjI [OF h empty_set_never_fires [OF h]])
qed

subsection \<open>Evaluating one condition\<close>

lemma evaluated_missing:
  assumes "indicator c \<noteq> ''Price''" "indicator c \<noteq> ''Volume''" "indicators d (indicator c) = None"
  shows "evaluated c d = c\<lparr>completed := False\<rparr>"
  using assms by (simp add: evaluated_def evaluate_condition_def read_indicator_def)

text \<open>
  C5. A condition whose indicator is neither Price nor Volume nor a key of the snapshot's
  indicator map keeps its \<open>current_value\<close> and is unsatisfied after the pass, whatever
  its state was before.
\<close>

theorem missing_indicator_never_satisfies:
  assumes "i < length (conditions m)"
    and "indicator (conditions m ! i) \<noteq> ''Price''"
    and "indicator (conditions m ! i) \<noteq> ''Volume''"
    and "indicators d (indicator (conditions m ! i)) = None"
  shows "current_value (conditions (fst (evaluate_conditions_for_symbol m s d)) ! i)
           = current_value (conditions m ! i)
         \<and> \<not> completed (conditions (fst (evaluate_conditions_for_symbol m s d)) ! i)"
  using assms by (simp add: pass_conditions evaluated_missing)

theorem missing_indicator_never_satisfies_witness:
  "current_value (conditions (fst (evaluate_conditions_for_symbol
       (matcher_ex [cond_ex ''RSI'' ''<'' 30 True (Some 25)]) ''AAPL''
       (snapshot_ex 120 2500000 [''SMA'' \<mapsto> 118]))) ! 0) = Some 25
   \<and> \<not> completed (conditions (fst (evaluate_conditions_for_symbol
       (matcher_ex [cond_ex ''RSI'' ''<'' 30 True (Some 25)]) ''AAPL''
       (snapshot_ex 120 2500000 [''SMA'' \<mapsto> 118]))) ! 0)"
  using missing_indicator_never_satisfies
    [of 0 "matcher_ex [cond_ex ''RSI'' ''<'' 30 True (Some 25)]"
        "snapshot_ex 120 2500000 [''SMA'' \<mapsto> 118]" "''AAPL''"]
  by (simp add: ex_defs)

subsection \<open>Registration and reset\<close>

text \<open>
  C7 as stated fails: \<^verbatim>\<open>add_conditions\<close> stores a condition that is already
  marked satisfied, with a current value, as it is.
\<close>

theorem add_conditions_counterexample:
  "conditions (fst (add_conditions (matcher_ex []) [cond_ex ''RSI'' ''<'' 30 True (Some 25)]))
     = [cond_ex ''RSI'' ''<'' 30 True (Some 25)]
   \<and> completed (cond_ex ''RSI'' ''<'' 30 True (Some 25))
   \<and> current_value (cond_ex ''RSI'' ''<'' 30 True (Some 25)) = Some 25"
  by (simp add: add_conditions_def ex_defs Let_def)

text \<open>
  C7 (as the code has it). \<^verbatim>\<open>add_conditions\<close> appends the given conditions to the
  tracked list without touching any field; it is \<^verbatim>\<open>reset_conditions\<close> that leaves
  every tracked condition with \<open>completed = False\<close> and \<open>current_value = None\<close>.
\<close>

theorem add_appends_reset_clears:
  "conditions (fst (add_conditions m cs)) = conditions m @ cs
   \<and> length (conditions (fst (reset_conditions m))) = length (conditions m)
   \<and> (\<forall>c \<in> set (conditions (fst (reset_conditions m))).
        \<not> completed c \<and> current_value c = None)"
  by (auto simp add: add_conditions_def reset_conditions_def Let_def)

theorem add_appends_reset_clears_witness:
  "conditions (fst (add_conditions (matcher_ex [cond_ex ''Price'' ''<'' 150 False None])
      [cond_ex ''RSI'' ''<'' 30 True (Some 25)]))
     = [cond_ex ''Price'' ''<'' 150 False None, cond_ex ''RSI'' ''<'' 30 True (Some 25)]
   \<and> \<not> completed (hd (conditions (fst (reset_conditions
         (matcher_ex [cond_ex ''RSI'' ''<'' 30 True (Some 25)])))))
   \<and> current_value (hd (conditions (fst (reset_conditions
         (matcher_ex [cond_ex ''RSI'' ''<'' 30 True (Some 25)]))))) = None"
proof -
  have mem: "hd (conditions (fst (reset_conditions (matcher_ex [cond_ex ''RSI'' ''<'' 30 True (Some 25)]))))
     \<in> set (conditions (fst (reset_conditions (matcher_ex [cond_ex ''RSI'' ''<'' 30 True (Some 25)]))))"
    by (simp add: reset_conditions_def matcher_ex_def Let_def)
  have a: "conditions (fst (add_conditions (matcher_ex [cond_ex ''Price'' ''<'' 150 False None])
      [cond_ex ''RSI'' ''<'' 30 True (Some 25)]))
     = [cond_ex ''Price'' ''<'' 150 False None, cond_ex ''RSI'' ''<'' 30 True (Some 25)]"
    using add_appends_reset_clears [of "matcher_ex [cond_ex ''Price'' ''<'' 150 False None]"
        "[cond_ex ''RSI'' ''<'' 30 True (Some 25)]"]
    by (simp add: matcher_ex_def)
  from add_appends_reset_clears [of "matcher_ex [cond_ex ''RSI'' ''<'' 30 True (Some 25)]" "[]"] mem a
  show ?thesis by blast
qed

lemma evaluated_available:
  assumes "read_indicator c d = Some v"
  shows "evaluated c d = c\<lparr>current_value := Some v, completed := apply_operator (operator c) v (value' c)\<rparr>"
  using assms by (simp add: evaluated_def evaluate_condition_def)

text \<open>
  C8. When the indicator is available with value \<open>v\<close>, the pass stores \<open>v\<close> and the
  satisfied flag is the numeric comparison of \<open>v\<close> with the threshold, for each of the four
  operators; at threshold 30 and value 30, \<open>>=\<close> is satisfied and \<open>>\<close> is not.
\<close>

theorem comparator_correct:
  assumes "i < length (conditions m)"
    and "read_indicator (conditions m ! i) d = Some v"
    and "c = conditions m ! i"
    and "c' = conditions (fst (evaluate_conditions_for_symbol m s d)) ! i"
  shows "current_value c' = Some v
     \<and> (operator c = ''<'' \<longrightarrow> completed c' = (v < value' c))
     \<and> (operator c = ''>'' \<longrightarrow> completed c' = (v > value' c))
     \<and> (operator c = ''<='' \<longrightarrow> completed c' = (v \<le> value' c))
     \<and> (operator c = ''>='' \<longrightarrow> completed c' = (v \<ge> value' c))
     \<and> (operator c = ''>='' \<and> value' c = 30 \<and> v = 30 \<longrightarrow> completed c')
     \<and> (operator c = ''>'' \<and> value' c = 30 \<and> v = 30 \<longrightarrow> \<not> completed c')"
proof -
  have "c' = evaluated c d"
    using assms(1,3,4) by (simp add: pass_conditions)
  then have c': "c' = c\<lparr>current_value := Some v, completed := apply_operator (operator c) v (value' c)\<rparr>"
    using assms(2,3) by (simp add: evaluated_available)
  show ?thesis
    unfolding c' by (simp add: apply_operator_def)
qed

theorem comparator_correct_witness:
  "completed (conditions (fst (evaluate_conditions_for_symbol
       (matcher_ex [cond_ex ''RSI'' ''>='' 30 False None]) ''AAPL''
       (snapshot_ex 120 2500000 [''RSI'' \<mapsto> 30]))) ! 0)
   \<and> \<not> completed (conditions (fst (evaluate_conditions_for_symbol
       (matcher_ex [cond_ex ''RSI'' ''>'' 30 True None]) ''AAPL''
       (snapshot_ex 120 2500000 [''RSI'' \<mapsto> 30]))) ! 0)"
proof -
  have r1: "read_indicator (conditions (matcher_ex [cond_ex ''RSI'' ''>='' 30 False None]) ! 0)
              (snapshot_ex 120 2500000 [''RSI'' \<mapsto> 30]) = Some 30"
    by (simp add: ex_defs read_indicator_def)
  have r2: "read_indicator (conditions (matcher_ex [cond_ex ''RSI'' ''>'' 30 True None]) ! 0)
              (snapshot_ex 120 2500000 [''RSI'' \<mapsto> 30]) = Some 30"
    by (simp add: ex_defs read_indicator_def)
  have l1: "0 < length (conditions (matcher_ex [cond_ex ''RSI'' ''>='' 30 False None]))"
    by (simp add: ex_defs)
  have l2: "0 < length (conditions (matcher_ex [cond_ex ''RSI'' ''>'' 30 True None]))"
    by (simp add: ex_defs)
  have a: "completed (conditions (fst (evaluate_conditions_for_symbol
       (matcher_ex [cond_ex ''RSI'' ''>='' 30 False None]) ''AAPL''
       (snapshot_ex 120 2500000 [''RSI'' \<mapsto> 30]))) ! 0)"
    using comparator_correct [OF l1 r1 refl refl, of "''AAPL''"] by (simp add: ex_defs)
  have b: "\<not> completed (conditions (fst (evaluate_conditions_for_symbol
       (matcher_ex [cond_ex ''RSI'' ''>'' 30 True None]) ''AAPL''
       (snapshot_ex 120 2500000 [''RSI'' \<mapsto> 30]))) ! 0)"
    using comparator_correct [OF l2 r2 refl refl, of "''AAPL''"] by (simp add: ex_defs)
  from a b show ?thesis by (rule conjI)
qed

subsection \<open>Notifications and frame of a pass\<close>

lemma map_completed_neq_iff:
  assumes "length ys = length xs"
  shows "(map completed ys \<noteq> map completed xs) = (\<exists>i<length xs. completed (ys ! i) \<noteq> completed (xs ! i))"
  using assms by (auto simp add: list_eq_iff_nth_eq)

text \<open>
  C9. A pass runs \<^verbatim>\<open>_notify_update\<close> (once, with the update callbacks and the full
  condition list as the pass leaves it) if and only if the satisfied flag of at least one
  condition differs before and after the pass.
\<close>

theorem state_changed_iff_flag_flipped:
  "filter is_state_changed (snd (evaluate_conditions_for_symbol m s d)) =
     (if \<exists>i<length (conditions m).
           completed (conditions (fst (evaluate_conditions_for_symbol m s d)) ! i)
             \<noteq> completed (conditions m ! i)
      then [StateChanged (update_callbacks m) (conditions (fst (evaluate_conditions_for_symbol m s d)))]
      else [])"
proof -
  have len: "length (conditions (fst (evaluate_conditions_for_symbol m s d))) = length (conditions m)"
    by (simp add: pass_conditions)
  show ?thesis
    unfolding pass_state_changes map_completed_neq_iff [OF len] ..
qed

theorem state_changed_iff_flag_flipped_witness:
  "filter is_state_changed (snd (evaluate_conditions_for_symbol
       (matcher_ex [cond_ex ''RSI'' ''<'' 30 False None, cond_ex ''Price'' ''<'' 100 False None]) ''AAPL''
       (snapshot_ex 120 2500000 [''RSI'' \<mapsto> 25])))
     = [StateChanged [0] [cond_ex ''RSI'' ''<'' 30 True (Some 25), cond_ex ''Price'' ''<'' 100 False (Some 120)]]
   \<and> filter is_state_changed (snd (evaluate_conditions_for_symbol
       (matcher_ex [cond_ex ''RSI'' ''<'' 30 True (Some 26), cond_ex ''Price'' ''<'' 100 False None]) ''AAPL''
       (snapshot_ex 120 2500000 [''RSI'' \<mapsto> 25]))) = []"
proof -
  let ?m1 = "matcher_ex [cond_ex ''RSI'' ''<'' 30 False None, cond_ex ''Price'' ''<'' 100 False None]"
  let ?m2 = "matcher_ex [cond_ex ''RSI'' ''<'' 30 True (Some 26), cond_ex ''Price'' ''<'' 100 False None]"
  let ?d = "snapshot_ex 120 2500000 [''RSI'' \<mapsto> 25]"
  have c1: "conditions (fst (evaluate_conditions_for_symbol ?m1 ''AAPL'' ?d))
      = [cond_ex ''RSI'' ''<'' 30 True (Some 25), cond_ex ''Price'' ''<'' 100 False (Some 120)]"
    by (simp add: ex_defs pass_defs)
  have c2: "conditions (fst (evaluate_conditions_for_symbol ?m2 ''AAPL'' ?d))
      = [cond_ex ''RSI'' ''<'' 30 True (Some 25), cond_ex ''Price'' ''<'' 100 False (Some 120)]"
    by (simp add: ex_defs pass_defs)
  have a: "filter is_state_changed (snd (evaluate_conditions_for_symbol ?m1 ''AAPL'' ?d))
     = [StateChanged [0] [cond_ex ''RSI'' ''<'' 30 True (Some 25), cond_ex ''Price'' ''<'' 100 False (Some 120)]]"
    unfolding state_changed_iff_flag_flipped [of ?m1 "''AAPL''" ?d] c1
    by (simp add: ex_defs less_Suc_eq conj_disj_distribR ex_disj_distrib)
  have b: "filter is_state_changed (snd (evaluate_conditions_for_symbol ?m2 ''AAPL'' ?d)) = []"
    unfolding state_changed_iff_flag_flipped [of ?m2 "''AAPL''" ?d] c2
    by (simp add: ex_defs less_Suc_eq conj_disj_distribR ex_disj_distrib)
  from a b show ?thesis by (rule conjI)
qed

lemma frame_evaluated: "frame (evaluated c d) = frame c"
  by (simp add: evaluated_def evaluate_condition_def frame_def split: option.splits)

lemma evaluated_unknown_operator:
  assumes "operator c \<notin> {''<'', ''>'', ''<='', ''>=''}"
  shows "\<not> completed (evaluated c d)"
  using assms by (simp add: evaluated_def evaluate_condition_def apply_operator_def split: option.splits)

text \<open>
  C10. A pass writes only \<open>completed\<close> and \<open>current_value\<close>: identifier, description,
  indicator, operator and threshold of every condition are as before, in the same order; the
  snapshots the matcher stores and its other fields are as before (the snapshot evaluated is
  an argument the pass only reads); and a condition whose operator is none of the four is
  left unsatisfied, the pass having no exceptional outcome.
\<close>

theorem evaluation_frame:
  "map frame (conditions (fst (evaluate_conditions_for_symbol m s d))) = map frame (conditions m)
   \<and> market_data (fst (evaluate_conditions_for_symbol m s d)) = market_data m
   \<and> update_callbacks (fst (evaluate_conditions_for_symbol m s d)) = update_callbacks m
   \<and> trade_executed_callbacks (fst (evaluate_conditions_for_symbol m s d)) = trade_executed_callbacks m
   \<and> running (fst (evaluate_conditions_for_symbol m s d)) = running m
   \<and> (\<forall>i<length (conditions m).
        operator (conditions m ! i) \<notin> {''<'', ''>'', ''<='', ''>=''} \<longrightarrow>
        \<not> completed (conditions (fst (evaluate_conditions_for_symbol m s d)) ! i))"
proof -
  have "map frame (conditions (fst (evaluate_conditions_for_symbol m s d))) = map frame (conditions m)"
    by (simp add: pass_conditions frame_evaluated comp_def)
  moreover have "market_data (fst (evaluate_conditions_for_symbol m s d)) = market_data m"
    and "update_callbacks (fst (evaluate_conditions_for_symbol m s d)) = update_callbacks m"
    and "trade_executed_callbacks (fst (evaluate_conditions_for_symbol m s d)) = trade_executed_callbacks m"
    and "running (fst (evaluate_conditions_for_symbol m s d)) = running m"
    by (simp_all add: pass_eq Let_def)
  moreover have "\<forall>i<length (conditions m).
        operator (conditions m ! i) \<notin> {''<'', ''>'', ''<='', ''>=''} \<longrightarrow>
        \<not> completed (conditions (fst (evaluate_conditions_for_symbol m s d)) ! i)"
    by (simp add: pass_conditions evaluated_unknown_operator)
  ultimately show ?thesis by blast
qed

theorem evaluation_frame_witness:
  "map frame (conditions (fst (evaluate_conditions_for_symbol
       (matcher_ex [cond_ex ''RSI'' ''=='' 30 True None]) ''AAPL''
       (snapshot_ex 120 2500000 [''RSI'' \<mapsto> 30]))))
     = [(''task_1'', ''rule'', ''RSI'', ''=='', 30)]
   \<and> \<not> completed (conditions (fst (evaluate_conditions_for_symbol
       (matcher_ex [cond_ex ''RSI'' ''=='' 30 True None]) ''AAPL''
       (snapshot_ex 120 2500000 [''RSI'' \<mapsto> 30]))) ! 0)"
  using evaluation_frame [of "matcher_ex [cond_ex ''RSI'' ''=='' 30 True None]" "''AAPL''"
      "snapshot_ex 120 2500000 [''RSI'' \<mapsto> 30]"]
  by (simp add: ex_defs frame_def)

subsection \<open>Risk limits\<close>

lemmas exec_ex_defs = risk_ex_def executor_ex_def env_ex_def snapshot_ex_def
lemmas exec_defs = execute_trade_def check_risk_limits_def calculate_position_size_def
  create_order_def simulate_execution_def execute_real_broker_def py_int_def Let_def


text \<open>
  C3 (as the code has it). \<^verbatim>\<open>execute_trade\<close> returns no execution, appends nothing to
  the ledger and hands nothing to the broker when the daily P&L is strictly below
  \<open>- max_daily_loss\<close>, or when the estimated notional, the price times 100 shares, exceeds
  \<open>max_position_size\<close>.
\<close>

theorem risk_rejection_strict:
  assumes "daily_pnl ex < - max_daily_loss (risk_params ex)
           \<or> MarketData.price d * 100 > max_position_size (risk_params ex)"
  shows "execute_trade ex br env s d conds = Inr (None, ex, [])"
  using assms by (auto simp add: execute_trade_def check_risk_limits_def Let_def)

theorem risk_rejection_strict_witness:
  "daily_pnl (executor_ex (-1200) False) < - max_daily_loss (risk_params (executor_ex (-1200) False))
   \<and> execute_trade (executor_ex (-1200) False) (\<lambda>ord. BrokerRaises) env_ex ''AAPL''
       (snapshot_ex 50 1000 Map.empty) [] = Inr (None, executor_ex (-1200) False, [])"
proof -
  have h: "daily_pnl (executor_ex (-1200) False) < - max_daily_loss (risk_params (executor_ex (-1200) False))"
    by (simp add: exec_ex_defs)
  show ?thesis
    by (rule conjI [OF h risk_rejection_strict [OF disjI1 [OF h]]])
qed

text \<open>
  C3 as stated fails at equality: with a daily P&L of exactly \<open>- max_daily_loss\<close> the
  trade is executed and appended to the ledger.
\<close>

theorem risk_rejection_counterexample:
  "daily_pnl (executor_ex (-1000) False) \<le> - max_daily_loss (risk_params (executor_ex (-1000) False))
   \<and> (case execute_trade (executor_ex (-1000) False) (\<lambda>ord. BrokerRaises) env_ex ''AAPL''
              (snapshot_ex 50 1000 Map.empty) [] of
         Inr (Some e, ex', sent) \<Rightarrow> executed_trades ex' = [e] \<and> executed_quantity e = 1000
       | _ \<Rightarrow> False)"
  by (simp add: exec_ex_defs exec_defs)

subsection \<open>Position size and simulated fills\<close>

lemma str_nat_nonempty: "str_nat n \<noteq> []"
  by (subst str_nat.simps) simp

lemma str_int_nonempty: "str_int i \<noteq> []"
  by (simp add: str_int_def str_nat_nonempty)






lemma simulate_execution_eq:
  "simulate_execution env ord d =
     Some \<lparr>order = ord, executed_price = MarketData.price d * (1 + slippage env),
           executed_quantity = quantity ord, timestamp = time_stamp env,
           execution_id = ''EXEC_'' @ str_int (py_int (time_id env * 1000)),
           commission = 0.001 * (MarketData.price d * (1 + slippage env)) * real_of_int (quantity ord)\<rparr>"
  by (simp add: simulate_execution_def Let_def)

text \<open>
  C6 (as the code has it). When a trade that passed the risk check with a positive share count
  is dispatched without a real broker, or the real broker's call raises, exactly one execution
  is produced and appended to the ledger: the simulated fill of the order, with the order's
  quantity, commission \<open>0.001 \<times> executed_price \<times> executed_quantity\<close> and the non-empty
  identifier \<open>EXEC_\<close> followed by the time in milliseconds. The execution has the six
  fields of \<^verbatim>\<open>TradeExecution\<close> and no flag that marks it as simulated.
\<close>

theorem simulated_fill:
  assumes "check_risk_limits ex s d"
    and "calculate_position_size ex d = Inr q"
    and "0 < q"
    and "\<not> using_real_broker ex \<or> br (create_order s d q) = BrokerRaises"
  shows "\<exists>e sent.
       execute_trade ex br env s d conds
         = Inr (Some e, ex\<lparr>executed_trades := executed_trades ex @ [e]\<rparr>, sent)
     \<and> simulate_execution env (create_order s d q) d = Some e
     \<and> order e = create_order s d q
     \<and> executed_quantity e = quantity (order e)
     \<and> executed_price e = MarketData.price d * (1 + slippage env)
     \<and> commission e = 0.001 * executed_price e * real_of_int (executed_quantity e)
     \<and> execution_id e = ''EXEC_'' @ str_int (py_int (time_id env * 1000))
     \<and> execution_id e \<noteq> []"
proof -
  let ?ord = "create_order s d q"
  obtain e where e: "simulate_execution env ?ord d = Some e"
    by (simp add: simulate_execution_eq)
  have dispatch: "(if using_real_broker ex then execute_real_broker br env ?ord d
                   else simulate_execution env ?ord d) = Some e"
    using assms(4) e by (auto simp add: execute_real_broker_def)
  have run: "execute_trade ex br env s d conds
      = Inr (Some e, ex\<lparr>executed_trades := executed_trades ex @ [e]\<rparr>,
             (if using_real_broker ex then [?ord] else [])
               @ (if using_real_broker ex then set_broker_risk_orders ex br e d else []))"
    using assms(1,2,3) dispatch by (simp add: execute_trade_def Let_def)
  have props: "order e = ?ord \<and> executed_quantity e = quantity (order e)
     \<and> executed_price e = MarketData.price d * (1 + slippage env)
     \<and> commission e = 0.001 * executed_price e * real_of_int (executed_quantity e)
     \<and> execution_id e = ''EXEC_'' @ str_int (py_int (time_id env * 1000))
     \<and> execution_id e \<noteq> []"
    using e by (auto simp add: simulate_execution_eq)
  from run e props show ?thesis by blast
qed

theorem simulated_fill_witness:
  "(case execute_trade (executor_ex 0 True) (\<lambda>ord. BrokerRaises) env_ex ''AAPL''
           (snapshot_ex 50 1000 Map.empty) [] of
      Inr (Some e, ex', sent) \<Rightarrow>
        executed_trades ex' = [e] \<and> executed_quantity e = 1000 \<and> executed_price e = 50
        \<and> commission e = 50 \<and> execution_id e = ''EXEC_1700000000000''
    | _ \<Rightarrow> False)"
proof -
  let ?ex = "executor_ex 0 True" and ?d = "snapshot_ex 50 1000 Map.empty"
  have h1: "check_risk_limits ?ex ''AAPL'' ?d"
    by (simp add: exec_ex_defs check_risk_limits_def)
  have h2: "calculate_position_size ?ex ?d = Inr 1000"
    by (simp add: exec_ex_defs calculate_position_size_def py_int_def)
  have h3: "(0::int) < 1000" by simp
  have h4: "\<not> using_real_broker ?ex \<or> (\<lambda>ord. BrokerRaises) (create_order ''AAPL'' ?d 1000) = BrokerRaises"
    by simp
  have id: "str_int (py_int (time_id env_ex * 1000)) = ''1700000000000''"
    by (simp add: env_ex_def py_int_def str_int_def str_nat.simps digit_char_def)
  from simulated_fill [OF h1 h2 h3 h4, of env_ex "[]"]
  obtain e sent where
    run: "execute_trade ?ex (\<lambda>ord. BrokerRaises) env_ex ''AAPL'' ?d []
            = Inr (Some e, ?ex\<lparr>executed_trades := executed_trades ?ex @ [e]\<rparr>, sent)"
    and q: "order e = create_order ''AAPL'' ?d 1000" "executed_quantity e = quantity (order e)"
    and p: "executed_price e = MarketData.price ?d * (1 + slippage env_ex)"
    and c: "commission e = 0.001 * executed_price e * real_of_int (executed_quantity e)"
    and i: "execution_id e = ''EXEC_'' @ str_int (py_int (time_id env_ex * 1000))"
    by blast
  have "executed_quantity e = 1000" using q by (simp add: create_order_def)
  moreover have "executed_price e = 50" using p by (simp add: exec_ex_defs)
  ultimately have "commission e = 50" using c by simp
  with \<open>executed_quantity e = 1000\<close> \<open>executed_price e = 50\<close> i id run show ?thesis
    by (simp add: executor_ex_def)
qed

text \<open>
  C6 as stated fails: a fill returned by a real broker and the simulated fill after a broker
  call that raised can be the same record, so nothing in the execution tells them apart; and a
  broker that fails by returning \<^verbatim>\<open>None\<close> yields no execution at all.
\<close>

theorem simulated_flag_counterexample:
  "execute_real_broker
      (\<lambda>ord. BrokerReturns (Some \<lparr>order = ord, executed_price = 50, executed_quantity = 1000,
                  timestamp = 1700000000, execution_id = ''EXEC_1700000000000'', commission = 50\<rparr>))
      env_ex (create_order ''AAPL'' (snapshot_ex 50 1000 Map.empty) 1000) (snapshot_ex 50 1000 Map.empty)
    = execute_real_broker (\<lambda>ord. BrokerRaises)
      env_ex (create_order ''AAPL'' (snapshot_ex 50 1000 Map.empty) 1000) (snapshot_ex 50 1000 Map.empty)
   \<and> simulate_execution env_ex (create_order ''AAPL'' (snapshot_ex 50 1000 Map.empty) 1000)
        (snapshot_ex 50 1000 Map.empty)
      = Some \<lparr>order = create_order ''AAPL'' (snapshot_ex 50 1000 Map.empty) 1000,
               executed_price = 50, executed_quantity = 1000,
               timestamp = 1700000000, execution_id = ''EXEC_1700000000000'', commission = 50\<rparr>
   \<and> execute_real_broker (\<lambda>ord. BrokerReturns None)
      env_ex (create_order ''AAPL'' (snapshot_ex 50 1000 Map.empty) 1000) (snapshot_ex 50 1000 Map.empty)
    = None"
  by (simp add: execute_real_broker_def simulate_execution_def create_order_def exec_ex_defs
        py_int_def str_int_def str_nat.simps digit_char_def Let_def)

end
